theory Spec2Isabelle
  imports Complex_Main
begin

section \<open>Values crossing the HTTP boundary\<close>

text \<open>
  Request bodies, parsed query strings and the parsed \<open>X-API-Fields\<close> /
  \<open>X-API-Sort\<close> headers are JavaScript values. An object is the list of its
  own properties; a property is read with \<open>map_of\<close>, which is \<open>None\<close>
  where JavaScript yields \<open>undefined\<close>. Numbers are integers in this
  development: identifiers, counts and page sizes are, and fractions play no
  part in any handler.
\<close>

datatype jval =
    JNull
  | JBool bool
  | JNum int
  | JStr string
  | JArr "jval list"
  | JObj "(string \<times> jval) list"

type_synonym jobject = "(string \<times> jval) list"

text \<open>
  A JavaScript number as the handlers meet it: \<open>parseInt\<close> yields an integer
  or \<open>NaN\<close>, and a division by zero yields an infinity or \<open>NaN\<close>.
\<close>

datatype js_number = Num int | NaN | PosInfinity | NegInfinity

fun js_mult :: "js_number \<Rightarrow> js_number \<Rightarrow> js_number" where
  "js_mult (Num a) (Num b) = Num (a * b)"
| "js_mult NaN _ = NaN"
| "js_mult _ NaN = NaN"
| "js_mult (Num a) PosInfinity = (if a = 0 then NaN else if 0 < a then PosInfinity else NegInfinity)"
| "js_mult (Num a) NegInfinity = (if a = 0 then NaN else if 0 < a then NegInfinity else PosInfinity)"
| "js_mult PosInfinity (Num b) = (if b = 0 then NaN else if 0 < b then PosInfinity else NegInfinity)"
| "js_mult NegInfinity (Num b) = (if b = 0 then NaN else if 0 < b then NegInfinity else PosInfinity)"
| "js_mult PosInfinity PosInfinity = PosInfinity"
| "js_mult NegInfinity NegInfinity = PosInfinity"
| "js_mult PosInfinity NegInfinity = NegInfinity"
| "js_mult NegInfinity PosInfinity = NegInfinity"

text \<open>
  \<open>Math.ceil(count / limit)\<close> for a row count (a natural number) and a
  limit. A zero limit divides by zero: \<open>count / 0\<close> is \<open>Infinity\<close> for a
  positive count and \<open>NaN\<close> for \<open>0 / 0\<close>, and \<open>Math.ceil\<close> returns both
  unchanged.
\<close>

fun js_ceil_div :: "nat \<Rightarrow> js_number \<Rightarrow> js_number" where
  "js_ceil_div c (Num l) =
     (if l = 0 then (if c = 0 then NaN else PosInfinity)
      else Num (- ((- int c) div l)))"
| "js_ceil_div c NaN = NaN"
| "js_ceil_div c PosInfinity = Num 0"
| "js_ceil_div c NegInfinity = Num 0"

definition is_finite :: "js_number \<Rightarrow> bool" where
  "is_finite x = (case x of Num _ \<Rightarrow> True | _ \<Rightarrow> False)"

subsection \<open>\<open>parseInt(s, 10)\<close>\<close>

definition is_space :: "char \<Rightarrow> bool" where
  "is_space c = (c \<in> set [CHR '' '', CHR 0x09, CHR 0x0A, CHR 0x0B, CHR 0x0C, CHR 0x0D])"

definition is_digit :: "char \<Rightarrow> bool" where
  "is_digit c = (c \<in> set ''0123456789'')"

definition digit_val :: "char \<Rightarrow> int" where
  "digit_val c = int (of_char c) - 48"

definition digits_val :: "string \<Rightarrow> int" where
  "digits_val ds = foldl (\<lambda>a c. 10 * a + digit_val c) 0 ds"

text \<open>The sign and the rest of a string whose leading white space is gone.\<close>

definition split_sign :: "string \<Rightarrow> bool \<times> string" where
  "split_sign t =
     (case t of
        [] \<Rightarrow> (False, [])
      | c # r \<Rightarrow>
          if c = CHR ''-'' then (True, r)
          else if c = CHR ''+'' then (False, r)
          else (False, t))"

text \<open>
  \<open>parseInt\<close> skips leading white space, reads an optional sign and the
  longest run of decimal digits, and ignores whatever follows; with no digit
  it returns \<open>NaN\<close>.
\<close>

definition parseInt10 :: "string \<Rightarrow> js_number" where
  "parseInt10 s =
     (let (neg, u) = split_sign (dropWhile is_space s);
          ds = takeWhile is_digit u
      in if ds = [] then NaN
         else Num ((if neg then - 1 else 1) * digits_val ds))"

section \<open>The validation layer\<close>

text \<open>
  Modelled from the spec: the routes build their schemas with the validator
  they import from \<open>utils/helpers/joi.js\<close>, a wrapper of the Joi library
  that is not among the sources. The schemas are in the routes and are
  translated below as they stand; the meaning of the rules they are built
  from is the one the spec gives for the validation layer (types checked when
  a value is present, required keys, fixed sets of literals, unknown keys
  refused, only the first failure reported), with Joi's defaults where the
  spec is silent: values are converted before they are checked (a numeric
  string is a number, the strings \<open>true\<close> and \<open>false\<close> in any case are
  booleans), \<open>string()\<close> refuses the empty string and \<open>null\<close> is refused
  everywhere. A string is numeric here when it is an integer numeral,
  possibly signed and surrounded by white space; the bounds that Joi puts on
  the magnitude of a number are left out.
\<close>

definition numeric_string :: "string \<Rightarrow> bool" where
  "numeric_string s =
     (let (neg, u) = split_sign (dropWhile is_space s);
          ds = takeWhile is_digit u
      in ds \<noteq> [] \<and> dropWhile is_space (dropWhile is_digit u) = [])"

definition lower_char :: "char \<Rightarrow> char" where
  "lower_char c =
     (case map_of (zip ''ABCDEFGHIJKLMNOPQRSTUVWXYZ'' ''abcdefghijklmnopqrstuvwxyz'') c of
        Some d \<Rightarrow> d
      | None \<Rightarrow> c)"

datatype joi_rule =
    JoiString
  | JoiNumber
  | JoiBoolean
  | JoiStringValid "string list"
  | JoiBooleanValid bool

fun joi_accepts :: "joi_rule \<Rightarrow> jval \<Rightarrow> bool" where
  "joi_accepts JoiString v = (case v of JStr s \<Rightarrow> s \<noteq> [] | _ \<Rightarrow> False)"
| "joi_accepts JoiNumber v =
     (case v of JNum n \<Rightarrow> True | JStr s \<Rightarrow> numeric_string s | _ \<Rightarrow> False)"
| "joi_accepts JoiBoolean v =
     (case v of
        JBool b \<Rightarrow> True
      | JStr s \<Rightarrow> map lower_char s \<in> set [''true'', ''false'']
      | _ \<Rightarrow> False)"
| "joi_accepts (JoiStringValid allowed) v =
     (case v of JStr s \<Rightarrow> s \<in> set allowed | _ \<Rightarrow> False)"
| "joi_accepts (JoiBooleanValid b) v =
     (case v of
        JBool c \<Rightarrow> c = b
      | JStr s \<Rightarrow> map lower_char s = (if b then ''true'' else ''false'')
      | _ \<Rightarrow> False)"

text \<open>
  One key of an object schema: its rule, whether \<open>.required()\<close> was called on
  it, and the message of its \<open>.error(new Error(...))\<close>.
\<close>

record joi_key =
  rule :: joi_rule
  required :: bool
  message :: string

type_synonym joi_keys = "(string \<times> joi_key) list"

definition opt :: "joi_rule \<Rightarrow> string \<Rightarrow> joi_key" where
  "opt r m = \<lparr>rule = r, required = False, message = m\<rparr>"

definition req :: "joi_rule \<Rightarrow> string \<Rightarrow> joi_key" where
  "req r m = \<lparr>rule = r, required = True, message = m\<rparr>"

text \<open>The keys of the schema are checked in the order of their declaration.\<close>

fun check_keys :: "joi_keys \<Rightarrow> jobject \<Rightarrow> string option" where
  "check_keys [] obj = None"
| "check_keys ((k, s) # ks) obj =
     (case map_of obj k of
        None \<Rightarrow> if required s then Some (message s) else check_keys ks obj
      | Some v \<Rightarrow> if joi_accepts (rule s) v then check_keys ks obj else Some (message s))"

definition unknown_key :: "joi_keys \<Rightarrow> jobject \<Rightarrow> string option" where
  "unknown_key ks obj = find (\<lambda>k. k \<notin> set (map fst ks)) (map fst obj)"

text \<open>
  \<open>Joi.object().keys(ks)\<close> applied to the value found under \<open>path\<close>. The
  result is the message of the first failure, \<open>None\<close> when the value passes.
\<close>

definition joi_object :: "string \<Rightarrow> joi_keys \<Rightarrow> jval \<Rightarrow> string option" where
  "joi_object path ks v =
     (case v of
        JObj obj \<Rightarrow>
          (case check_keys ks obj of
             Some e \<Rightarrow> Some e
           | None \<Rightarrow>
               (case unknown_key ks obj of
                  Some k \<Rightarrow> Some ([CHR 0x22] @ path @ ''.'' @ k @ [CHR 0x22] @ '' is not allowed'')
                | None \<Rightarrow> None))
      | _ \<Rightarrow> Some ([CHR 0x22] @ path @ [CHR 0x22] @ '' must be of type object''))"

text \<open>
  A member of the value handed to \<open>schema.validate\<close>: a member that is left
  out is \<open>undefined\<close>, and an object schema that is not required accepts that.
\<close>

definition joi_member :: "string \<Rightarrow> joi_keys \<Rightarrow> jval option \<Rightarrow> string option" where
  "joi_member path ks m = (case m of None \<Rightarrow> None | Some v \<Rightarrow> joi_object path ks v)"

text \<open>
  \<open>Joi.number().required()\<close> applied to the result of \<open>parseInt\<close>: \<open>NaN\<close>
  is not a number for Joi.
\<close>

definition joi_id :: "string \<Rightarrow> js_number \<Rightarrow> string option" where
  "joi_id msg n = (case n of Num i \<Rightarrow> None | _ \<Rightarrow> Some msg)"

text \<open>The first failure of a sequence of checks.\<close>

fun first_error :: "string option list \<Rightarrow> string option" where
  "first_error [] = None"
| "first_error (None # es) = first_error es"
| "first_error (Some e # es) = Some e"

section \<open>The data model\<close>

text \<open>
  Every entity class declares \<open>id\<close>, \<open>name\<close> and the audit columns; they
  form the common part of the records. A property that JavaScript leaves
  \<open>undefined\<close> or the database leaves \<open>NULL\<close> is \<open>None\<close>: the \<open>id\<close> and
  the timestamps of an entity that was never saved, \<open>deletedAt\<close> of a row
  that is not soft-deleted, the acting principal \<open>req.user?.id\<close> of a request
  without a user. Timestamps are readings of the store's clock.
\<close>

record Base =
  id :: "int option"
  name :: string
  createdBy :: "string option"
  updatedBy :: "string option"
  deletedBy :: "string option"
  createdAt :: "nat option"
  updatedAt :: "nat option"
  deletedAt :: "nat option"

record OsFamily = Base +
  shortName :: string

record Location = Base +
  availableNetworks :: "string list"

record IApprovalPolicyPolicies =
  userGroups :: string
  expiresInDays :: int
  defaultAction :: string

record ApprovalPolicy = Base +
  policies :: "IApprovalPolicyPolicies list"

text \<open>
  A \<open>ManyToOne\<close> property holds the referenced object when the relation was
  loaded or assigned, the bare key in a stored row, and nothing when the
  relation was not loaded.
\<close>

datatype 'a relation = RelId int | RelObj 'a | RelNone

record OsTemplate = Base +
  templateId :: string
  osFamily :: "OsFamily relation"
  location :: "Location relation"
  availableNetwork :: string

datatype catalog_type = Standard | Custom

record Catalog = Base +
  icon :: "string option"
  shortName :: string
  defaultTemplate :: "OsTemplate relation"
  defaultApprovalPolicy :: "ApprovalPolicy relation"
  defaultLeasePeriod :: int
  permittedMaxLeaseExtensions :: int
  type :: catalog_type

record db =
  osFamilies :: "OsFamily list"
  locations :: "Location list"
  approvalPolicies :: "ApprovalPolicy list"
  osTemplates :: "OsTemplate list"
  catalogs :: "Catalog list"

section \<open>The entity store\<close>

text \<open>
  The repositories of the object-relational mapper, over tables kept as lists
  of rows in the store's own order. Reads leave out soft-deleted rows.
\<close>

definition live :: "'a Base_scheme \<Rightarrow> bool" where
  "live r = (deletedAt r = None)"

definition findOneBy :: "int \<Rightarrow> 'a Base_scheme list \<Rightarrow> 'a Base_scheme option" where
  "findOneBy i tbl = find (\<lambda>r. id r = Some i \<and> live r) tbl"


definition fresh_id :: "'a Base_scheme list \<Rightarrow> int" where
  "fresh_id tbl = 1 + foldl max 0 (map (\<lambda>r. case id r of Some i \<Rightarrow> i | None \<Rightarrow> 0) tbl)"

text \<open>
  \<open>save(entity)\<close>. An entity without \<open>id\<close> is inserted under a generated
  key, with both timestamps set; an entity with an \<open>id\<close> overwrites the rows
  with that key and gets a new \<open>updatedAt\<close>. The argument \<open>columns\<close> turns
  the entity into the row to store, given the row it replaces: it is where a
  relation becomes its key. The saved entity is returned with the row
  written.
\<close>

definition save ::
  "('a Base_scheme \<Rightarrow> 'a Base_scheme \<Rightarrow> 'a Base_scheme) \<Rightarrow> nat \<Rightarrow> 'a Base_scheme \<Rightarrow>
   'a Base_scheme list \<Rightarrow> 'a Base_scheme \<times> 'a Base_scheme list" where
  "save columns now e tbl =
     (case id e of
        None \<Rightarrow>
          (let e' = e\<lparr>id := Some (fresh_id tbl), createdAt := Some now,
                       updatedAt := Some now, deletedAt := None\<rparr>
           in (e', tbl @ [columns e' e']))
      | Some i \<Rightarrow>
          (let e' = e\<lparr>updatedAt := Some now\<rparr>
           in (e', map (\<lambda>r. if id r = Some i then columns r e' else r) tbl)))"

text \<open>The key a relation is stored as; a relation that was not loaded keeps the stored key.\<close>

definition rel_key :: "'b Base_scheme relation \<Rightarrow> 'b Base_scheme relation \<Rightarrow> 'b Base_scheme relation" where
  "rel_key old r =
     (case r of
        RelObj x \<Rightarrow> (case id x of Some i \<Rightarrow> RelId i | None \<Rightarrow> RelNone)
      | RelId i \<Rightarrow> RelId i
      | RelNone \<Rightarrow> old)"

definition osTemplate_columns :: "OsTemplate \<Rightarrow> OsTemplate \<Rightarrow> OsTemplate" where
  "osTemplate_columns old e =
     e\<lparr>osFamily := rel_key (osFamily old) (osFamily e),
       location := rel_key (location old) (location e)\<rparr>"

definition catalog_columns :: "Catalog \<Rightarrow> Catalog \<Rightarrow> Catalog" where
  "catalog_columns old e =
     e\<lparr>defaultTemplate := rel_key (defaultTemplate old) (defaultTemplate e),
       defaultApprovalPolicy := rel_key (defaultApprovalPolicy old) (defaultApprovalPolicy e)\<rparr>"

section \<open>Responses\<close>

text \<open>
  Modelled from the spec: the enumerations \<open>Status\<close> and \<open>ErrorCodes\<close> are
  imported by every route and their declarations are not among the sources.
  The spec gives the two status strings of the envelope and the numeric error
  codes by name; the constructors stand for those values.
\<close>

datatype Status = SUCCESS | ERROR | ACCESS_DENIED

datatype ErrorCodes =
  E401 | E1001 | E1002 | E1003 | E1004 | E1005 | E1006 | E1007 | E1008

fun ErrorMessages :: "ErrorCodes \<Rightarrow> string" where
  "ErrorMessages E401 = ''You are not authorized to access this resource''"
| "ErrorMessages E1001 = ''Error fetching data from resource''"
| "ErrorMessages E1002 = ''Error fetching data from resource with provided identifier''"
| "ErrorMessages E1003 = ''Error creating resource''"
| "ErrorMessages E1004 = ''Error updating resource with provided identifier''"
| "ErrorMessages E1005 = ''Error deleting resource with provided identifier''"
| "ErrorMessages E1006 = ''Unable to find the requested resource with provided identifier''"
| "ErrorMessages E1007 = ''Validation failed for the provided input''"
| "ErrorMessages E1008 = ''Error uploading files to resource with provided identifier''"

text \<open>What a handler puts under a key of the object it sends.\<close>

datatype payload =
    PStatus Status
  | PCode ErrorCodes
  | PString string
  | PNumber js_number
  | POsTemplate OsTemplate
  | POsTemplates "OsTemplate list"
  | PCatalog Catalog
  | PCatalogs "Catalog list"

record response =
  http_status :: nat
  body :: "(string \<times> payload) list"

definition HttpStatus_OK :: nat where
  "HttpStatus_OK = 200"

definition send :: "(string \<times> payload) list \<Rightarrow> response" where
  "send b = \<lparr>http_status = HttpStatus_OK, body = b\<rparr>"

text \<open>
  A handler either sends a response or lets an exception escape: the awaits
  that an \<open>async\<close> handler performs outside its \<open>try\<close> block reject the
  handler's promise, and no response is sent.
\<close>

datatype outcome = Sent response | Unhandled

definition error_response :: "ErrorCodes \<Rightarrow> string \<Rightarrow> outcome" where
  "error_response c m =
     Sent (send [(''status'', PStatus ERROR), (''code'', PCode c), (''error'', PString m)])"

section \<open>The request environment\<close>

text \<open>
  What a request brings besides its input: the acting principal
  \<open>req.user?.id\<close>, the reading of the store's clock, and which kinds of store
  operation raise during this request (a lost connection, a constraint the
  database enforces).
\<close>

datatype store_op = FindAndCount | FindOne | Save | SoftDelete

record env =
  user :: "string option"
  now :: nat
  fails :: "store_op \<Rightarrow> bool"

subsection \<open>Reading the body\<close>

definition field :: "jval \<Rightarrow> string \<Rightarrow> jval option" where
  "field b k = (case b of JObj obj \<Rightarrow> map_of obj k | _ \<Rightarrow> None)"

text \<open>
  A validated string attribute is a string; a validated number attribute is a
  number or a numeral, which the database reads as that number.
\<close>

definition string_of :: "jval option \<Rightarrow> string" where
  "string_of v = (case v of Some (JStr s) \<Rightarrow> s | _ \<Rightarrow> [])"

definition number_of :: "jval option \<Rightarrow> int option" where
  "number_of v =
     (case v of
        Some (JNum n) \<Rightarrow> Some n
      | Some (JStr s) \<Rightarrow>
          (if numeric_string s then (case parseInt10 s of Num n \<Rightarrow> Some n | _ \<Rightarrow> None) else None)
      | _ \<Rightarrow> None)"

text \<open>
  \<open>findOneBy({ id: v })\<close> for a value of the body. A value that is not a
  number matches no key.
\<close>

definition findOneBy_value :: "jval option \<Rightarrow> 'a Base_scheme list \<Rightarrow> 'a Base_scheme option" where
  "findOneBy_value v tbl = (case number_of v of Some i \<Rightarrow> findOneBy i tbl | None \<Rightarrow> None)"

text \<open>\<open>xs.includes(v)\<close> for an array of strings.\<close>

definition array_includes :: "string list \<Rightarrow> jval option \<Rightarrow> bool" where
  "array_includes xs v = (case v of Some (JStr s) \<Rightarrow> s \<in> set xs | _ \<Rightarrow> False)"

section \<open>OsTemplate routes\<close>

subsection \<open>POST /ostemplate\<close>

definition createOsTemplate_schema :: joi_keys where
  "createOsTemplate_schema =
     [(''name'', req JoiString ''Please provide a valid name''),
      (''templateId'', req JoiString ''Please provide a valid templateId''),
      (''osFamily'', req JoiNumber ''Please provide a valid number for osFamily''),
      (''location'', req JoiNumber ''Please provide a valid number for location''),
      (''availableNetwork'', req JoiString ''Please provide a valid availableNetwork'')]"

definition createOsTemplate_validation :: "jval \<Rightarrow> string option" where
  "createOsTemplate_validation b =
     first_error [joi_member ''b'' createOsTemplate_schema (Some b)]"

text \<open>\<open>new OsTemplate()\<close> with the seven assignments of the handler.\<close>

definition new_OsTemplate :: "env \<Rightarrow> jval \<Rightarrow> OsFamily \<Rightarrow> Location \<Rightarrow> OsTemplate" where
  "new_OsTemplate e b fam loc =
     \<lparr>id = None,
      name = string_of (field b ''name''),
      createdBy = user e,
      updatedBy = user e,
      deletedBy = None,
      createdAt = None,
      updatedAt = None,
      deletedAt = None,
      templateId = string_of (field b ''templateId''),
      osFamily = RelObj fam,
      location = RelObj loc,
      availableNetwork = string_of (field b ''availableNetwork'')\<rparr>"

definition createOsTemplate :: "env \<Rightarrow> jval \<Rightarrow> db \<Rightarrow> outcome \<times> db" where
  "createOsTemplate e b d =
     (case createOsTemplate_validation b of
        Some m \<Rightarrow> (error_response E1007 m, d)
      | None \<Rightarrow>
          if fails e FindOne then (error_response E1003 (ErrorMessages E1003), d)
          else
            (case findOneBy_value (field b ''osFamily'') (osFamilies d) of
               None \<Rightarrow> (error_response E1007 ''Provided osFamily doesn't exist'', d)
             | Some fam \<Rightarrow>
                 (case findOneBy_value (field b ''location'') (locations d) of
                    None \<Rightarrow> (error_response E1007 ''Provided location doesn't exist'', d)
                  | Some loc \<Rightarrow>
                      if \<not> array_includes (availableNetworks loc) (field b ''availableNetwork'')
                      then (error_response E1007 ''Provided availableNetwork is not part of location'', d)
                      else if fails e Save then (error_response E1003 (ErrorMessages E1003), d)
                      else
                        (let (ostemplate, tbl) =
                               save osTemplate_columns (now e) (new_OsTemplate e b fam loc) (osTemplates d)
                         in (Sent (send [(''status'', PStatus SUCCESS), (''ostemplate'', POsTemplate ostemplate)]),
                             d\<lparr>osTemplates := tbl\<rparr>)))))"

text \<open>
  The steps of an update either go on with the entity or return a response
  at once.
\<close>

definition and_then :: "outcome + 'a \<Rightarrow> ('a \<Rightarrow> outcome + 'a) \<Rightarrow> outcome + 'a" where
  "and_then x f = (case x of Inl out \<Rightarrow> Inl out | Inr a \<Rightarrow> f a)"

text \<open>The key a handler parsed from its path parameter, as the store query sees it.\<close>

definition findOneBy_number :: "js_number \<Rightarrow> 'a Base_scheme list \<Rightarrow> 'a Base_scheme option" where
  "findOneBy_number n tbl = (case n of Num i \<Rightarrow> findOneBy i tbl | _ \<Rightarrow> None)"

subsection \<open>PUT /ostemplate/:ostemplateId\<close>

definition updateOsTemplate_schema :: joi_keys where
  "updateOsTemplate_schema =
     [(''name'', opt JoiString ''Please provide a valid name''),
      (''templateId'', opt JoiString ''Please provide a valid templateId''),
      (''osFamily'', req JoiNumber ''Please provide a valid number for osFamily''),
      (''location'', req JoiNumber ''Please provide a valid number for location''),
      (''availableNetwork'', opt JoiString ''Please provide a valid availableNetwork'')]"

definition updateOsTemplate_validation :: "js_number \<Rightarrow> jval \<Rightarrow> string option" where
  "updateOsTemplate_validation i b =
     first_error
       [joi_id ''Please provide a valid number for ostemplateId'' i,
        joi_member ''b'' updateOsTemplate_schema (Some b)]"

text \<open>
  \<open>findOne({ where: { id }, relations: { location: true } })\<close>: the row with
  its location loaded and its other relation left out.
\<close>

definition load_location :: "db \<Rightarrow> OsTemplate \<Rightarrow> OsTemplate" where
  "load_location d r =
     r\<lparr>osFamily := RelNone,
       location :=
         (case location r of
            RelId i \<Rightarrow> (case findOneBy i (locations d) of Some l \<Rightarrow> RelObj l | None \<Rightarrow> RelNone)
          | _ \<Rightarrow> RelNone)\<rparr>"

definition findOne_with_location :: "db \<Rightarrow> js_number \<Rightarrow> OsTemplate option" where
  "findOne_with_location d i = map_option (load_location d) (findOneBy_number i (osTemplates d))"

definition assign_name :: "jval \<Rightarrow> 'a Base_scheme \<Rightarrow> 'a Base_scheme" where
  "assign_name b x =
     (case field b ''name'' of None \<Rightarrow> x | Some v \<Rightarrow> x\<lparr>name := string_of (Some v)\<rparr>)"

definition assign_templateId :: "jval \<Rightarrow> OsTemplate \<Rightarrow> OsTemplate" where
  "assign_templateId b x =
     (case field b ''templateId'' of None \<Rightarrow> x | Some v \<Rightarrow> x\<lparr>templateId := string_of (Some v)\<rparr>)"

definition assign_osFamily :: "db \<Rightarrow> jval \<Rightarrow> OsTemplate \<Rightarrow> outcome + OsTemplate" where
  "assign_osFamily d b x =
     (case field b ''osFamily'' of
        None \<Rightarrow> Inr x
      | Some v \<Rightarrow>
          (case findOneBy_value (Some v) (osFamilies d) of
             None \<Rightarrow> Inl (error_response E1007 ''Provided osFamily doesn't exist'')
           | Some fam \<Rightarrow> Inr (x\<lparr>osFamily := RelObj fam\<rparr>)))"

definition assign_location :: "db \<Rightarrow> jval \<Rightarrow> OsTemplate \<Rightarrow> outcome + OsTemplate" where
  "assign_location d b x =
     (case field b ''location'' of
        None \<Rightarrow> Inr x
      | Some v \<Rightarrow>
          (case findOneBy_value (Some v) (locations d) of
             None \<Rightarrow> Inl (error_response E1007 ''Provided location doesn't exist'')
           | Some loc \<Rightarrow> Inr (x\<lparr>location := RelObj loc\<rparr>)))"

text \<open>
  \<open>ostemplate.location?.availableNetworks.includes(b.availableNetwork)\<close>:
  without a loaded location the optional chain is \<open>undefined\<close>, which the
  negation turns into a refusal.
\<close>

definition assign_availableNetwork :: "jval \<Rightarrow> OsTemplate \<Rightarrow> outcome + OsTemplate" where
  "assign_availableNetwork b x =
     (case field b ''availableNetwork'' of
        None \<Rightarrow> Inr x
      | Some v \<Rightarrow>
          if \<not> (case location x of
                   RelObj loc \<Rightarrow> array_includes (availableNetworks loc) (Some v)
                 | _ \<Rightarrow> False)
          then Inl (error_response E1007 ''Provided availableNetwork is not part of location'')
          else Inr (x\<lparr>availableNetwork := string_of (Some v)\<rparr>))"

definition updateOsTemplate :: "env \<Rightarrow> string \<Rightarrow> jval \<Rightarrow> db \<Rightarrow> outcome \<times> db" where
  "updateOsTemplate e ostemplateId b d =
     (let i = parseInt10 ostemplateId in
      case updateOsTemplate_validation i b of
        Some m \<Rightarrow> (error_response E1007 m, d)
      | None \<Rightarrow>
          if fails e FindOne then (Unhandled, d)
          else
            (case findOne_with_location d i of
               None \<Rightarrow> (error_response E1006 (ErrorMessages E1006), d)
             | Some ostemplate \<Rightarrow>
                 (case and_then
                         (and_then
                            (assign_osFamily d b (assign_templateId b (assign_name b ostemplate)))
                            (assign_location d b))
                         (assign_availableNetwork b) of
                    Inl out \<Rightarrow> (out, d)
                  | Inr x \<Rightarrow>
                      if fails e Save
                      then (Sent (send [(''status'', PStatus ERROR), (''codes'', PCode E1004),
                                        (''error'', PString (ErrorMessages E1004))]), d)
                      else
                        (let (saved, tbl) =
                               save osTemplate_columns (now e) (x\<lparr>updatedBy := user e\<rparr>) (osTemplates d)
                         in (Sent (send [(''status'', PStatus SUCCESS), (''ostemplate'', POsTemplate saved)]),
                             d\<lparr>osTemplates := tbl\<rparr>)))))"

subsection \<open>DELETE /ostemplate/:ostemplateId\<close>


text \<open>\<open>findOneBy({ id })\<close> loads no relation.\<close>

definition unloaded :: "OsTemplate \<Rightarrow> OsTemplate" where
  "unloaded r = r\<lparr>osFamily := RelNone, location := RelNone\<rparr>"



subsection \<open>GET /ostemplate\<close>

text \<open>
  The value of a JSON header: \<open>JSON.parse(req.get(h) || '{}')\<close> yields the
  empty object for a header that is absent and raises on text that is not
  JSON.
\<close>

datatype header = Absent | Malformed | Parsed jval

definition parse_header :: "header \<Rightarrow> jval option" where
  "parse_header h = (case h of Absent \<Rightarrow> Some (JObj []) | Malformed \<Rightarrow> None | Parsed v \<Rightarrow> Some v)"

record list_request =
  q :: jobject
  x_api_fields :: header
  x_api_sort :: header

text \<open>lodash's \<open>isEmpty\<close>.\<close>

definition isEmpty :: "jval \<Rightarrow> bool" where
  "isEmpty v =
     (case v of
        JStr s \<Rightarrow> s = []
      | JArr xs \<Rightarrow> xs = []
      | JObj obj \<Rightarrow> obj = []
      | _ \<Rightarrow> True)"

record FindManyOptions =
  skip :: js_number
  take_rows :: js_number
  select :: "jval option"
  order :: "jval option"
  relations :: "string list"
  loadRelationIds :: bool

text \<open>
  How the store orders the rows for an \<open>order\<close> option and shapes a row for
  the selected columns and the loaded relations. The handlers hand these
  options over unchanged, so both are left to the store; a store that cannot
  apply an option raises, which is the case \<open>FindAndCount\<close> of the
  environment.
\<close>

record 'r view =
  arrange :: "jval option \<Rightarrow> 'r list \<Rightarrow> 'r list"
  present :: "FindManyOptions \<Rightarrow> 'r \<Rightarrow> 'r"

text \<open>
  \<open>findAndCount(query)\<close>: the rows that are not soft-deleted, ordered, without
  the first \<open>skip\<close> of them and cut after \<open>take\<close>, together with the number
  of all rows that are not soft-deleted. The store raises (\<open>None\<close>) on an
  offset or a limit that is negative or not a number.
\<close>

definition findAndCount ::
  "'a Base_scheme view \<Rightarrow> FindManyOptions \<Rightarrow> 'a Base_scheme list \<Rightarrow> ('a Base_scheme list \<times> nat) option" where
  "findAndCount v query tbl =
     (case (skip query, take_rows query) of
        (Num s, Num t) \<Rightarrow>
          if s < 0 \<or> t < 0 then None
          else Some (map (present v query)
                       (take (nat t) (drop (nat s) (arrange v (order query) (filter live tbl)))),
                     length (filter live tbl))
      | _ \<Rightarrow> None)"

definition list_query_schema :: joi_keys where
  "list_query_schema =
     [(''page'', opt JoiNumber ''Please provide a valid page''),
      (''limit'', opt JoiNumber ''Please provide a valid limit''),
      (''relations'', opt JoiBoolean ''Please provide a valid relations'')]"

definition field_option :: "string \<Rightarrow> string \<times> joi_key" where
  "field_option k = (k, opt (JoiBooleanValid True) (''Please provide a valid field option for '' @ k))"

definition sort_option :: "string \<Rightarrow> string \<times> joi_key" where
  "sort_option k = (k, opt (JoiStringValid [''asc'', ''desc'']) (''Please provide a valid sort option for '' @ k))"

definition osTemplate_attributes :: "string list" where
  "osTemplate_attributes =
     [''id'', ''name'', ''templateId'', ''osFamily'', ''location'', ''availableNetwork'',
      ''createdBy'', ''updatedBy'', ''createdAt'', ''updatedAt'']"

text \<open>
  The schema declares \<open>q\<close>, \<open>fields\<close> and \<open>sort\<close>; the handler validates
  the object \<open>{ q, fields }\<close>, in which \<open>sort\<close> is not a member.
\<close>

definition fetchAllOsTemplates_validation :: "jobject \<Rightarrow> jval \<Rightarrow> jval \<Rightarrow> string option" where
  "fetchAllOsTemplates_validation qv fields' sort' =
     first_error
       [joi_member ''q'' list_query_schema (Some (JObj qv)),
        joi_member ''fields'' (map field_option osTemplate_attributes) (Some fields'),
        joi_member ''sort'' (map sort_option osTemplate_attributes) None]"

definition page_of :: "jobject \<Rightarrow> js_number" where
  "page_of qv = (case map_of qv ''page'' of Some (JStr s) \<Rightarrow> parseInt10 s | _ \<Rightarrow> Num 0)"

definition limit_of :: "jobject \<Rightarrow> js_number" where
  "limit_of qv = (case map_of qv ''limit'' of Some (JStr s) \<Rightarrow> parseInt10 s | _ \<Rightarrow> Num 50)"

definition list_query :: "string list \<Rightarrow> jobject \<Rightarrow> jval \<Rightarrow> jval \<Rightarrow> FindManyOptions" where
  "list_query rels qv fields' sort' =
     (let page = page_of qv; limit = limit_of qv;
          with_relations = (map_of qv ''relations'' = Some (JStr ''true''))
      in \<lparr>skip = js_mult page limit,
          take_rows = limit,
          select = (if \<not> isEmpty fields' then Some fields' else None),
          order = (if \<not> isEmpty sort' then Some sort' else None),
          relations = (if with_relations then rels else []),
          loadRelationIds = (\<not> with_relations)\<rparr>)"

definition fetchAllOsTemplates :: "OsTemplate view \<Rightarrow> env \<Rightarrow> list_request \<Rightarrow> db \<Rightarrow> outcome" where
  "fetchAllOsTemplates v e r d =
     (case (parse_header (x_api_fields r), parse_header (x_api_sort r)) of
        (Some fields', Some sort') \<Rightarrow>
          (case fetchAllOsTemplates_validation (q r) fields' sort' of
             Some m \<Rightarrow> error_response E1007 m
           | None \<Rightarrow>
               if fails e FindAndCount then error_response E1001 (ErrorMessages E1001)
               else
                 (case findAndCount v (list_query [''osFamily'', ''location''] (q r) fields' sort')
                         (osTemplates d) of
                    None \<Rightarrow> error_response E1001 (ErrorMessages E1001)
                  | Some (result, count) \<Rightarrow>
                      Sent (send [(''status'', PStatus SUCCESS),
                                  (''ostemplates'', POsTemplates result),
                                  (''count'', PNumber (Num (int count))),
                                  (''pages'', PNumber (js_ceil_div count (limit_of (q r))))])))
      | _ \<Rightarrow> error_response E1001 (ErrorMessages E1001))"

section \<open>Catalog routes\<close>

subsection \<open>GET /catalog\<close>

definition catalog_attributes :: "string list" where
  "catalog_attributes =
     [''name'', ''icon'', ''shortName'', ''defaultTemplate'', ''defaultApprovalPolicy'',
      ''defaultLeasePeriod'', ''permittedMaxLeaseExtensions'', ''type'',
      ''createdBy'', ''updatedBy'', ''createdAt'', ''updatedAt'']"

definition fetchAllCatalogs_validation :: "jobject \<Rightarrow> jval \<Rightarrow> jval \<Rightarrow> string option" where
  "fetchAllCatalogs_validation qv fields' sort' =
     first_error
       [joi_member ''q'' list_query_schema (Some (JObj qv)),
        joi_member ''fields'' (map field_option catalog_attributes) (Some fields'),
        joi_member ''sort'' (map sort_option catalog_attributes) None]"

definition fetchAllCatalogs :: "Catalog view \<Rightarrow> env \<Rightarrow> list_request \<Rightarrow> db \<Rightarrow> outcome" where
  "fetchAllCatalogs v e r d =
     (case (parse_header (x_api_fields r), parse_header (x_api_sort r)) of
        (Some fields', Some sort') \<Rightarrow>
          (case fetchAllCatalogs_validation (q r) fields' sort' of
             Some m \<Rightarrow> error_response E1007 m
           | None \<Rightarrow>
               if fails e FindAndCount then error_response E1001 (ErrorMessages E1001)
               else
                 (case findAndCount v
                         (list_query [''defaultTemplate'', ''defaultApprovalPolicy''] (q r) fields' sort')
                         (catalogs d) of
                    None \<Rightarrow> error_response E1001 (ErrorMessages E1001)
                  | Some (result, count) \<Rightarrow>
                      Sent (send [(''status'', PStatus SUCCESS),
                                  (''catalogs'', PCatalogs result),
                                  (''count'', PNumber (Num (int count))),
                                  (''pages'', PNumber (js_ceil_div count (limit_of (q r))))])))
      | _ \<Rightarrow> error_response E1001 (ErrorMessages E1001))"

subsection \<open>POST /catalog\<close>



definition int_of :: "jval option \<Rightarrow> int" where
  "int_of v = (case number_of v of Some n \<Rightarrow> n | None \<Rightarrow> 0)"

definition type_of :: "jval option \<Rightarrow> catalog_type" where
  "type_of v = (case v of Some (JStr s) \<Rightarrow> (if s = ''Custom'' then Custom else Standard) | _ \<Rightarrow> Standard)"



subsection \<open>PUT /catalog/:catalogId\<close>

definition updateCatalog_schema :: joi_keys where
  "updateCatalog_schema =
     [(''name'', opt JoiString ''Please provide a valid name''),
      (''shortName'', opt JoiString ''Please provide a valid shortName''),
      (''defaultTemplate'', opt JoiNumber ''Please provide a valid number for defaultTemplate''),
      (''defaultApprovalPolicy'', opt JoiNumber ''Please provide a valid number for defaultApprovalPolicy''),
      (''defaultLeasePeriod'', opt JoiNumber ''Please provide a valid number for defaultLeasePeriod''),
      (''permittedMaxLeaseExtensions'', opt JoiNumber ''Please provide a valid number for permittedMaxLeaseExtensions''),
      (''type'', opt (JoiStringValid [''Standard'', ''Custom'']) ''Please provide a valid string for type'')]"

definition updateCatalog_validation :: "js_number \<Rightarrow> jval \<Rightarrow> string option" where
  "updateCatalog_validation i b =
     first_error
       [joi_id ''Please provide a valid number for catalogId'' i,
        joi_member ''b'' updateCatalog_schema (Some b)]"

definition unloaded_catalog :: "Catalog \<Rightarrow> Catalog" where
  "unloaded_catalog r = r\<lparr>defaultTemplate := RelNone, defaultApprovalPolicy := RelNone\<rparr>"

definition assign_shortName :: "jval \<Rightarrow> Catalog \<Rightarrow> Catalog" where
  "assign_shortName b x =
     (case field b ''shortName'' of None \<Rightarrow> x | Some v \<Rightarrow> x\<lparr>shortName := string_of (Some v)\<rparr>)"

definition assign_defaultTemplate :: "db \<Rightarrow> jval \<Rightarrow> Catalog \<Rightarrow> outcome + Catalog" where
  "assign_defaultTemplate d b x =
     (case field b ''defaultTemplate'' of
        None \<Rightarrow> Inr x
      | Some v \<Rightarrow>
          (case map_option unloaded (findOneBy_value (Some v) (osTemplates d)) of
             None \<Rightarrow> Inl (error_response E1007 ''Provided defaultTemplate doesn't exist'')
           | Some osTemplate \<Rightarrow> Inr (x\<lparr>defaultTemplate := RelObj osTemplate\<rparr>)))"

definition assign_defaultApprovalPolicy :: "db \<Rightarrow> jval \<Rightarrow> Catalog \<Rightarrow> outcome + Catalog" where
  "assign_defaultApprovalPolicy d b x =
     (case field b ''defaultApprovalPolicy'' of
        None \<Rightarrow> Inr x
      | Some v \<Rightarrow>
          (case findOneBy_value (Some v) (approvalPolicies d) of
             None \<Rightarrow> Inl (error_response E1007 ''Provided defaultApprovalPolicy doesn't exist'')
           | Some approvalPolicy \<Rightarrow> Inr (x\<lparr>defaultApprovalPolicy := RelObj approvalPolicy\<rparr>)))"

definition assign_defaultLeasePeriod :: "jval \<Rightarrow> Catalog \<Rightarrow> Catalog" where
  "assign_defaultLeasePeriod b x =
     (case field b ''defaultLeasePeriod'' of
        None \<Rightarrow> x
      | Some v \<Rightarrow> x\<lparr>defaultLeasePeriod := int_of (Some v)\<rparr>)"

definition assign_permittedMaxLeaseExtensions :: "jval \<Rightarrow> Catalog \<Rightarrow> Catalog" where
  "assign_permittedMaxLeaseExtensions b x =
     (case field b ''permittedMaxLeaseExtensions'' of
        None \<Rightarrow> x
      | Some v \<Rightarrow> x\<lparr>permittedMaxLeaseExtensions := int_of (Some v)\<rparr>)"

definition assign_type :: "jval \<Rightarrow> Catalog \<Rightarrow> Catalog" where
  "assign_type b x =
     (case field b ''type'' of None \<Rightarrow> x | Some v \<Rightarrow> x\<lparr>type := type_of (Some v)\<rparr>)"

definition updateCatalog :: "env \<Rightarrow> string \<Rightarrow> jval \<Rightarrow> db \<Rightarrow> outcome \<times> db" where
  "updateCatalog e catalogId b d =
     (let i = parseInt10 catalogId in
      case updateCatalog_validation i b of
        Some m \<Rightarrow> (error_response E1007 m, d)
      | None \<Rightarrow>
          if fails e FindOne then (Unhandled, d)
          else
            (case map_option unloaded_catalog (findOneBy_number i (catalogs d)) of
               None \<Rightarrow> (error_response E1006 (ErrorMessages E1006), d)
             | Some catalog \<Rightarrow>
                 (case and_then
                         (assign_defaultTemplate d b (assign_shortName b (assign_name b catalog)))
                         (assign_defaultApprovalPolicy d b) of
                    Inl out \<Rightarrow> (out, d)
                  | Inr x \<Rightarrow>
                      if fails e Save
                      then (Sent (send [(''status'', PStatus ERROR), (''codes'', PCode E1004),
                                        (''error'', PString (ErrorMessages E1004))]), d)
                      else
                        (let (saved, tbl) =
                               save catalog_columns (now e)
                                 ((assign_type b (assign_permittedMaxLeaseExtensions b
                                     (assign_defaultLeasePeriod b x)))\<lparr>updatedBy := user e\<rparr>)
                                 (catalogs d)
                         in (Sent (send [(''status'', PStatus SUCCESS), (''catalog'', PCatalog saved)]),
                             d\<lparr>catalogs := tbl\<rparr>)))))"

section \<open>The router\<close>












section \<open>A small installation\<close>

text \<open>
  One OS family, two locations with one network each, one approval policy, a
  template at the first location and a catalog of that template. The
  requests of the examples below are run against it.
\<close>

definition quiet :: env where
  "quiet = \<lparr>user = Some ''alice'', now = 7, fails = (\<lambda>_. False)\<rparr>"

definition save_down :: env where
  "save_down = \<lparr>user = Some ''alice'', now = 7, fails = (\<lambda>k. k = Save)\<rparr>"

definition linux :: OsFamily where
  "linux =
     \<lparr>id = Some 1, name = ''Linux'', createdBy = None, updatedBy = None, deletedBy = None,
      createdAt = Some 1, updatedAt = Some 1, deletedAt = None, OsFamily.shortName = ''LNX''\<rparr>"

definition dc0 :: Location where
  "dc0 =
     \<lparr>id = Some 1, name = ''DC0'', createdBy = None, updatedBy = None, deletedBy = None,
      createdAt = Some 1, updatedAt = Some 1, deletedAt = None,
      availableNetworks = [''/DC0/vm/network'']\<rparr>"

definition dc1 :: Location where
  "dc1 =
     \<lparr>id = Some 2, name = ''DC1'', createdBy = None, updatedBy = None, deletedBy = None,
      createdAt = Some 1, updatedAt = Some 1, deletedAt = None,
      availableNetworks = [''/DC1/vm/network'']\<rparr>"

definition ubuntu :: OsTemplate where
  "ubuntu =
     \<lparr>id = Some 1, name = ''Ubuntu 20.08'', createdBy = Some ''bob'', updatedBy = Some ''bob'',
      deletedBy = None, createdAt = Some 2, updatedAt = Some 2, deletedAt = None,
      templateId = ''/DC0/vm/template'', osFamily = RelId 1, location = RelId 1,
      availableNetwork = ''/DC0/vm/network''\<rparr>"

definition two_step :: ApprovalPolicy where
  "two_step =
     \<lparr>id = Some 1, name = ''Approval Policy'', createdBy = None, updatedBy = None, deletedBy = None,
      createdAt = Some 1, updatedAt = Some 1, deletedAt = None, policies = []\<rparr>"

definition standard :: Catalog where
  "standard =
     \<lparr>id = Some 1, name = ''Standard Catalog'', createdBy = Some ''bob'', updatedBy = Some ''bob'',
      deletedBy = None, createdAt = Some 3, updatedAt = Some 3, deletedAt = None,
      icon = None, shortName = ''ST'', defaultTemplate = RelId 1, defaultApprovalPolicy = RelId 1,
      defaultLeasePeriod = 5, permittedMaxLeaseExtensions = 10, type = Standard\<rparr>"

definition site :: db where
  "site =
     \<lparr>osFamilies = [linux], locations = [dc0, dc1], approvalPolicies = [two_step],
      osTemplates = [ubuntu], catalogs = [standard]\<rparr>"

text \<open>A store that keeps its own order and returns whole rows.\<close>

definition plain :: "'r view" where
  "plain = \<lparr>arrange = (\<lambda>_ rows. rows), present = (\<lambda>_ row. row)\<rparr>"

text \<open>
  Invariant I2 of the data model, for a template against the locations of a
  store: the network of the template is one of the networks of the location
  the template refers to.
\<close>

definition network_in_location :: "db \<Rightarrow> OsTemplate \<Rightarrow> bool" where
  "network_in_location d r =
     (case location r of
        RelId i \<Rightarrow>
          (case findOneBy i (locations d) of
             Some loc \<Rightarrow> availableNetwork r \<in> set (availableNetworks loc)
           | None \<Rightarrow> False)
      | RelObj loc \<Rightarrow> availableNetwork r \<in> set (availableNetworks loc)
      | RelNone \<Rightarrow> False)"

text \<open>Bodies and requests of the examples.\<close>

definition move_to_dc1 :: jval where
  "move_to_dc1 = JObj [(''osFamily'', JNum 1), (''location'', JNum 2)]"

text \<open>The input that the documentation comment of the PUT route gives as its example.\<close>

definition documented_update :: jval where
  "documented_update =
     JObj [(''name'', JStr ''Ubuntu 20.08''), (''templateId'', JStr ''/DC0/vm/template''),
           (''availableNetwork'', JStr ''/DC0/vm/network'')]"

definition sideways :: list_request where
  "sideways =
     \<lparr>q = [], x_api_fields = Absent,
      x_api_sort = Parsed (JObj [(''name'', JStr ''sideways''), (''bogus'', JStr ''asc'')])\<rparr>"


definition no_limit :: list_request where
  "no_limit = \<lparr>q = [(''limit'', JStr ''0'')], x_api_fields = Absent, x_api_sort = Absent\<rparr>"

text \<open>A lease period that the integer column of the catalog table cannot hold.\<close>

definition overlong_lease :: jval where
  "overlong_lease = JObj [(''defaultLeasePeriod'', JNum 99999999999)]"



section \<open>What a passed validation tells\<close>

lemma first_error_None: "first_error es = None \<longleftrightarrow> (\<forall>x \<in> set es. x = None)"
  by (induction es rule: first_error.induct) auto

lemma check_keys_None:
  "check_keys ks obj = None \<Longrightarrow> (k, s) \<in> set ks \<Longrightarrow>
     (required s \<longrightarrow> map_of obj k \<noteq> None) \<and>
     (\<forall>v. map_of obj k = Some v \<longrightarrow> joi_accepts (rule s) v)"
  by (induction ks obj rule: check_keys.induct) (auto split: option.splits if_splits)

lemma joi_object_None:
  "joi_object path ks v = None \<Longrightarrow>
     \<exists>obj. v = JObj obj \<and> check_keys ks obj = None \<and> unknown_key ks obj = None"
  by (auto simp: joi_object_def split: jval.splits option.splits)

lemma validated_string:
  assumes "joi_object path ks b = None" and "(k, req JoiString m) \<in> set ks"
  shows "\<exists>s. field b k = Some (JStr s) \<and> s \<noteq> []"
proof -
  from assms(1) obtain obj where b: "b = JObj obj" and ck: "check_keys ks obj = None"
    using joi_object_None by blast
  from check_keys_None[OF ck assms(2)]
  obtain v where v: "map_of obj k = Some v" "joi_accepts JoiString v"
    by (auto simp: req_def)
  then show ?thesis using b by (cases v) (auto simp: field_def)
qed

lemma createOsTemplate_validated_network:
  assumes "createOsTemplate_validation b = None"
  shows "\<exists>s. field b ''availableNetwork'' = Some (JStr s) \<and> s \<noteq> []"
proof -
  from assms have "joi_object ''b'' createOsTemplate_schema b = None"
    by (simp add: createOsTemplate_validation_def joi_member_def first_error_None)
  then show ?thesis
    by (rule validated_string[where m = "''Please provide a valid availableNetwork''"])
       (simp add: createOsTemplate_schema_def)
qed

section \<open>Network membership on create\<close>

text \<open>
  Claim C2. A create request for an OS template that passes validation and
  names an OS family and a location that both exist, handled while the store
  answers: when the network of the body is not among the networks of that
  location, the response is the error E1007 with the message
  "Provided availableNetwork is not part of location" and the store is as it
  was; when it is among them, the response is a success carrying the new
  template, and exactly that template has been added to the table, under a
  fresh key, at that location and with that network.
\<close>

theorem createOsTemplate_network_membership:
  assumes valid: "createOsTemplate_validation b = None"
    and store: "\<not> fails e FindOne" "\<not> fails e Save"
    and fam: "findOneBy_value (field b ''osFamily'') (osFamilies d) = Some fam"
    and loc: "findOneBy_value (field b ''location'') (locations d) = Some loc"
  shows "if string_of (field b ''availableNetwork'') \<in> set (availableNetworks loc)
         then \<exists>row. createOsTemplate e b d =
                 (Sent (send [(''status'', PStatus SUCCESS), (''ostemplate'', POsTemplate row)]),
                  d\<lparr>osTemplates := osTemplates d @ [osTemplate_columns row row]\<rparr>)
               \<and> id row = Some (fresh_id (osTemplates d))
               \<and> location row = RelObj loc
               \<and> availableNetwork row = string_of (field b ''availableNetwork'')
         else createOsTemplate e b d =
                (error_response E1007 ''Provided availableNetwork is not part of location'', d)"
proof -
  from createOsTemplate_validated_network[OF valid]
  obtain s where s: "field b ''availableNetwork'' = Some (JStr s)" by blast
  let ?row = "fst (save osTemplate_columns (now e) (new_OsTemplate e b fam loc) (osTemplates d))"
  show ?thesis
  proof (cases "s \<in> set (availableNetworks loc)")
    case True
    have "createOsTemplate e b d =
            (Sent (send [(''status'', PStatus SUCCESS), (''ostemplate'', POsTemplate ?row)]),
             d\<lparr>osTemplates := osTemplates d @ [osTemplate_columns ?row ?row]\<rparr>)"
      using valid store fam loc s True
      by (simp add: createOsTemplate_def array_includes_def save_def new_OsTemplate_def Let_def)
    moreover have "id ?row = Some (fresh_id (osTemplates d))" "location ?row = RelObj loc"
      "availableNetwork ?row = string_of (field b ''availableNetwork'')"
      by (simp_all add: save_def new_OsTemplate_def Let_def)
    ultimately show ?thesis using s True by (auto simp: string_of_def)
  next
    case False
    then show ?thesis
      using valid store fam loc s
      by (simp add: createOsTemplate_def array_includes_def string_of_def)
  qed
qed

text \<open>
  The theorem at two requests against the installation: a template for the
  second location with the network of the first, and the same template with
  the network of its own location.
\<close>

theorem createOsTemplate_network_membership_witness:
  "createOsTemplate_validation
     (JObj [(''name'', JStr ''Debian''), (''templateId'', JStr ''/DC1/vm/template''),
            (''osFamily'', JNum 1), (''location'', JNum 2),
            (''availableNetwork'', JStr ''/DC0/vm/network'')]) = None
   \<and> createOsTemplate_validation
     (JObj [(''name'', JStr ''Debian''), (''templateId'', JStr ''/DC1/vm/template''),
            (''osFamily'', JNum 1), (''location'', JNum 2),
            (''availableNetwork'', JStr ''/DC1/vm/network'')]) = None
   \<and> \<not> fails quiet FindOne \<and> \<not> fails quiet Save
   \<and> createOsTemplate quiet
        (JObj [(''name'', JStr ''Debian''), (''templateId'', JStr ''/DC1/vm/template''),
               (''osFamily'', JNum 1), (''location'', JNum 2),
               (''availableNetwork'', JStr ''/DC0/vm/network'')]) site
       = (error_response E1007 ''Provided availableNetwork is not part of location'', site)
   \<and> (\<exists>row. createOsTemplate quiet
        (JObj [(''name'', JStr ''Debian''), (''templateId'', JStr ''/DC1/vm/template''),
               (''osFamily'', JNum 1), (''location'', JNum 2),
               (''availableNetwork'', JStr ''/DC1/vm/network'')]) site
       = (Sent (send [(''status'', PStatus SUCCESS), (''ostemplate'', POsTemplate row)]),
          site\<lparr>osTemplates := osTemplates site @ [osTemplate_columns row row]\<rparr>)
       \<and> location row = RelObj dc1 \<and> availableNetwork row = ''/DC1/vm/network'')"
proof -
  let ?b = "JObj [(''name'', JStr ''Debian''), (''templateId'', JStr ''/DC1/vm/template''),
            (''osFamily'', JNum 1), (''location'', JNum 2),
            (''availableNetwork'', JStr ''/DC0/vm/network'')]"
  let ?c = "JObj [(''name'', JStr ''Debian''), (''templateId'', JStr ''/DC1/vm/template''),
            (''osFamily'', JNum 1), (''location'', JNum 2),
            (''availableNetwork'', JStr ''/DC1/vm/network'')]"
  have v: "createOsTemplate_validation ?b = None" "createOsTemplate_validation ?c = None"
    by (simp_all add: createOsTemplate_validation_def joi_member_def joi_object_def
        createOsTemplate_schema_def req_def unknown_key_def)
  have q: "\<not> fails quiet FindOne" "\<not> fails quiet Save"
    by (simp_all add: quiet_def)
  have f: "findOneBy_value (field ?b ''osFamily'') (osFamilies site) = Some linux"
    "findOneBy_value (field ?c ''osFamily'') (osFamilies site) = Some linux"
    by (simp_all add: findOneBy_value_def field_def number_of_def findOneBy_def live_def
        site_def linux_def)
  have l: "findOneBy_value (field ?b ''location'') (locations site) = Some dc1"
    "findOneBy_value (field ?c ''location'') (locations site) = Some dc1"
    by (simp_all add: findOneBy_value_def field_def number_of_def findOneBy_def live_def
        site_def dc0_def dc1_def)
  have 1: "createOsTemplate quiet ?b site
       = (error_response E1007 ''Provided availableNetwork is not part of location'', site)"
    using createOsTemplate_network_membership[OF v(1) q f(1) l(1)]
    by (simp add: field_def string_of_def dc1_def)
  have 2: "\<exists>row. createOsTemplate quiet ?c site
       = (Sent (send [(''status'', PStatus SUCCESS), (''ostemplate'', POsTemplate row)]),
          site\<lparr>osTemplates := osTemplates site @ [osTemplate_columns row row]\<rparr>)
       \<and> location row = RelObj dc1 \<and> availableNetwork row = ''/DC1/vm/network''"
    using createOsTemplate_network_membership[OF v(2) q f(2) l(2)]
    by (auto simp add: field_def string_of_def dc1_def)
  show ?thesis using v q 1 2 by blast
qed

section \<open>Evaluating requests\<close>

lemmas store_simps = findOneBy_def findOneBy_number_def findOneBy_value_def live_def number_of_def
  field_def string_of_def save_def rel_key_def

lemmas joi_simps = joi_member_def joi_object_def joi_id_def unknown_key_def opt_def req_def
  field_option_def sort_option_def osTemplate_attributes_def catalog_attributes_def

lemmas parse_simps = parseInt10_def split_sign_def is_space_def is_digit_def digits_val_def
  digit_val_def numeric_string_def

lemmas site_simps = site_def linux_def dc0_def dc1_def ubuntu_def two_step_def standard_def

section \<open>Moving a template to another location\<close>

text \<open>
  Claim C1. The claim is that after every successful create or update the
  network of the template is one of the networks of its location, also when
  an update changes the location and supplies no network. The update handler
  checks the network only when the body carries one. At the installation the
  template satisfies the invariant; the update that moves it to the second
  location succeeds, and the stored row then names the second location and
  still has the network of the first, so the invariant is broken.
\<close>

theorem updateOsTemplate_location_without_network:
  "network_in_location site ubuntu
   \<and> fst (updateOsTemplate quiet ''1'' move_to_dc1 site) =
       Sent (send [(''status'', PStatus SUCCESS),
                   (''ostemplate'',
                    POsTemplate (ubuntu\<lparr>updatedBy := Some ''alice'', updatedAt := Some 7,
                       osFamily := RelObj linux, location := RelObj dc1\<rparr>))])
   \<and> osTemplates (snd (updateOsTemplate quiet ''1'' move_to_dc1 site)) =
       [ubuntu\<lparr>updatedBy := Some ''alice'', updatedAt := Some 7, location := RelId 2\<rparr>]
   \<and> \<not> network_in_location (snd (updateOsTemplate quiet ''1'' move_to_dc1 site))
         (ubuntu\<lparr>updatedBy := Some ''alice'', updatedAt := Some 7, location := RelId 2\<rparr>)"
proof -
  have v: "updateOsTemplate_validation (Num 1) move_to_dc1 = None"
    by (simp add: updateOsTemplate_validation_def updateOsTemplate_schema_def move_to_dc1_def joi_simps)
  have p: "parseInt10 ''1'' = Num 1"
    by (simp add: parse_simps)
  have u: "updateOsTemplate quiet ''1'' move_to_dc1 site =
      (Sent (send [(''status'', PStatus SUCCESS),
                   (''ostemplate'',
                    POsTemplate (ubuntu\<lparr>updatedBy := Some ''alice'', updatedAt := Some 7,
                       osFamily := RelObj linux, location := RelObj dc1\<rparr>))]),
       site\<lparr>osTemplates :=
         [ubuntu\<lparr>updatedBy := Some ''alice'', updatedAt := Some 7, location := RelId 2\<rparr>]\<rparr>)"
    by (simp add: updateOsTemplate_def p v Let_def quiet_def)
       (simp add: findOne_with_location_def load_location_def
        assign_name_def assign_templateId_def assign_osFamily_def assign_location_def
        assign_availableNetwork_def and_then_def osTemplate_columns_def array_includes_def
        move_to_dc1_def store_simps site_simps)
  show ?thesis
    by (simp add: u) (simp add: network_in_location_def store_simps site_simps)
qed

section \<open>Partial bodies on update\<close>

text \<open>
  Claim C4. The claim is that every attribute of a PUT body is optional,
  reference fields included. The schema of the OS template route calls
  \<open>required()\<close> on \<open>osFamily\<close> and on \<open>location\<close>: the body that the
  route's own documentation gives as its example, which has neither, is
  refused with the message for \<open>osFamily\<close> and the handler answers with the
  error E1007 and leaves the store alone. The schema of the catalog route
  accepts a body with one attribute.
\<close>

theorem updateOsTemplate_requires_references:
  "updateOsTemplate_validation (parseInt10 ''1'') documented_update =
     Some ''Please provide a valid number for osFamily''
   \<and> updateOsTemplate quiet ''1'' documented_update site =
     (error_response E1007 ''Please provide a valid number for osFamily'', site)
   \<and> updateCatalog_validation (parseInt10 ''1'') (JObj [(''name'', JStr ''Custom Catalog'')]) = None"
proof -
  have p: "parseInt10 ''1'' = Num 1"
    by (simp add: parse_simps)
  have v: "updateOsTemplate_validation (Num 1) documented_update =
     Some ''Please provide a valid number for osFamily''"
    by (simp add: updateOsTemplate_validation_def updateOsTemplate_schema_def
        documented_update_def joi_simps)
  have c: "updateCatalog_validation (Num 1) (JObj [(''name'', JStr ''Custom Catalog'')]) = None"
    by (simp add: updateCatalog_validation_def updateCatalog_schema_def joi_simps)
  show ?thesis
    by (simp add: updateOsTemplate_def p v c Let_def)
qed

section \<open>The sort map\<close>

text \<open>
  Claim C5. The claim is that a list request whose \<open>X-API-Sort\<close> map has an
  unknown attribute or a direction other than "asc" and "desc" is refused
  with E1007. The list handlers declare a schema for the sort map and then
  validate an object that does not contain it. For the map
  \<open>{"name": "sideways", "bogus": "asc"}\<close> the validation of both list
  routes passes and the map is handed to the store as the order of the query;
  whatever the store makes of it, and whatever the tables hold, neither route
  answers with E1007.
\<close>

theorem sort_map_not_validated:
  "parse_header (x_api_sort sideways) =
       Some (JObj [(''name'', JStr ''sideways''), (''bogus'', JStr ''asc'')])
   \<and> fetchAllOsTemplates_validation (q sideways) (JObj [])
       (JObj [(''name'', JStr ''sideways''), (''bogus'', JStr ''asc'')]) = None
   \<and> fetchAllCatalogs_validation (q sideways) (JObj [])
       (JObj [(''name'', JStr ''sideways''), (''bogus'', JStr ''asc'')]) = None
   \<and> order (list_query rels (q sideways) (JObj [])
         (JObj [(''name'', JStr ''sideways''), (''bogus'', JStr ''asc'')])) =
       Some (JObj [(''name'', JStr ''sideways''), (''bogus'', JStr ''asc'')])
   \<and> fetchAllOsTemplates v e sideways d \<noteq> error_response E1007 m
   \<and> fetchAllCatalogs w e sideways d \<noteq> error_response E1007 m"
proof -
  have a: "fetchAllOsTemplates_validation [] (JObj []) s = None" for s
    by (simp add: fetchAllOsTemplates_validation_def list_query_schema_def joi_simps)
  have b: "fetchAllCatalogs_validation [] (JObj []) s = None" for s
    by (simp add: fetchAllCatalogs_validation_def list_query_schema_def joi_simps)
  have c: "fetchAllOsTemplates v e sideways d \<noteq> error_response E1007 m"
    by (simp add: fetchAllOsTemplates_def sideways_def parse_header_def a error_response_def send_def
        split: option.splits prod.splits)
  have c': "fetchAllCatalogs w e sideways d \<noteq> error_response E1007 m"
    by (simp add: fetchAllCatalogs_def sideways_def parse_header_def b error_response_def send_def
        split: option.splits prod.splits)
  have o: "order (list_query rels [] (JObj [])
         (JObj [(''name'', JStr ''sideways''), (''bogus'', JStr ''asc'')])) =
       Some (JObj [(''name'', JStr ''sideways''), (''bogus'', JStr ''asc'')])"
    by (simp add: list_query_def isEmpty_def Let_def)
  show ?thesis using a b c c' o by (simp add: sideways_def parse_header_def)
qed

section \<open>The envelope of a failed update\<close>

text \<open>
  Claim C6. The claim is that every error response carries its numeric code
  under the key \<open>code\<close>, the failed save of a PUT handler included. When the
  store raises on the save of an update (the connection is lost, or a value
  such as the lease period of the example does not fit its column), the
  template route and the catalog route both answer with an object whose keys
  are \<open>status\<close>, \<open>codes\<close> and \<open>error\<close>: it has no key \<open>code\<close>.
\<close>

theorem update_failure_envelope:
  "fst (updateOsTemplate save_down ''1'' move_to_dc1 site) =
     Sent (send [(''status'', PStatus ERROR), (''codes'', PCode E1004),
                 (''error'', PString ''Error updating resource with provided identifier'')])
   \<and> fst (updateCatalog save_down ''1'' overlong_lease site) =
     Sent (send [(''status'', PStatus ERROR), (''codes'', PCode E1004),
                 (''error'', PString ''Error updating resource with provided identifier'')])
   \<and> map_of [(''status'', PStatus ERROR), (''codes'', PCode E1004),
              (''error'', PString ''Error updating resource with provided identifier'')] ''code''
       = None"
proof -
  have p: "parseInt10 ''1'' = Num 1"
    by (simp add: parse_simps)
  have v: "updateOsTemplate_validation (Num 1) move_to_dc1 = None"
    by (simp add: updateOsTemplate_validation_def updateOsTemplate_schema_def move_to_dc1_def joi_simps)
  have c: "updateCatalog_validation (Num 1) overlong_lease = None"
    by (simp add: updateCatalog_validation_def updateCatalog_schema_def overlong_lease_def joi_simps)
  have 1: "fst (updateOsTemplate save_down ''1'' move_to_dc1 site) =
     Sent (send [(''status'', PStatus ERROR), (''codes'', PCode E1004),
                 (''error'', PString ''Error updating resource with provided identifier'')])"
    by (simp add: updateOsTemplate_def p v Let_def save_down_def)
       (simp add: findOne_with_location_def load_location_def
        assign_name_def assign_templateId_def assign_osFamily_def assign_location_def
        assign_availableNetwork_def and_then_def array_includes_def
        move_to_dc1_def store_simps site_simps)
  have 2: "fst (updateCatalog save_down ''1'' overlong_lease site) =
     Sent (send [(''status'', PStatus ERROR), (''codes'', PCode E1004),
                 (''error'', PString ''Error updating resource with provided identifier'')])"
    by (simp add: updateCatalog_def p c Let_def save_down_def)
       (simp add: unloaded_catalog_def
        assign_name_def assign_shortName_def assign_defaultTemplate_def assign_defaultApprovalPolicy_def
        and_then_def overlong_lease_def store_simps site_simps)
  show ?thesis using 1 2 by simp
qed

section \<open>Facts about the store\<close>






lemma osTemplate_columns_base [simp]:
  "id (osTemplate_columns old x) = id x"
  "deletedBy (osTemplate_columns old x) = deletedBy x"
  "deletedAt (osTemplate_columns old x) = deletedAt x"
  "updatedBy (osTemplate_columns old x) = updatedBy x"
  "createdBy (osTemplate_columns old x) = createdBy x"
  "updatedAt (osTemplate_columns old x) = updatedAt x"
  "name (osTemplate_columns old x) = name x"
  by (simp_all add: osTemplate_columns_def)





section \<open>Referential rejection\<close>










section \<open>Pagination\<close>

lemma numeric_string_parseInt10: "numeric_string s \<Longrightarrow> \<exists>n. parseInt10 s = Num n"
  by (auto simp: numeric_string_def parseInt10_def Let_def split: prod.splits)



lemma list_validated_page:
  assumes "fetchAllOsTemplates_validation qv f so = None"
  shows "\<exists>p. page_of qv = Num p"
proof (cases "map_of qv ''page''")
  case None
  then show ?thesis by (simp add: page_of_def)
next
  case (Some v)
  from assms have "joi_object ''q'' list_query_schema (JObj qv) = None"
    by (simp add: fetchAllOsTemplates_validation_def joi_member_def first_error_None)
  then have "check_keys list_query_schema qv = None"
    using joi_object_None by blast
  from check_keys_None[OF this, of "''page''" "opt JoiNumber ''Please provide a valid page''"] Some
  have "joi_accepts JoiNumber v" by (simp add: list_query_schema_def opt_def)
  then show ?thesis using Some numeric_string_parseInt10
    by (cases v) (auto simp: page_of_def)
qed

text \<open>The list handler on a validated request whose offset and limit the store accepts.\<close>

lemma fetchAllOsTemplates_run:
  assumes "parse_header (x_api_fields r) = Some f" "parse_header (x_api_sort r) = Some so"
    and "fetchAllOsTemplates_validation (q r) f so = None"
    and "\<not> fails e FindAndCount"
    and "page_of (q r) = Num p" "limit_of (q r) = Num l" "0 \<le> p * l" "0 \<le> l"
  shows "fetchAllOsTemplates v e r d =
     Sent (send [(''status'', PStatus SUCCESS),
        (''ostemplates'', POsTemplates
           (map (present v (list_query [''osFamily'', ''location''] (q r) f so))
              (take (nat l) (drop (nat (p * l))
                 (arrange v (order (list_query [''osFamily'', ''location''] (q r) f so))
                    (filter live (osTemplates d))))))),
        (''count'', PNumber (Num (int (length (filter live (osTemplates d)))))),
        (''pages'', PNumber (js_ceil_div (length (filter live (osTemplates d))) (Num l)))])"
proof -
  have sk: "skip (list_query [''osFamily'', ''location''] (q r) f so) = Num (p * l)"
    "take_rows (list_query [''osFamily'', ''location''] (q r) f so) = Num l"
    using assms(5,6) by (simp_all add: list_query_def Let_def)
  show ?thesis
    using assms(1-4,6-8)
    by (simp add: fetchAllOsTemplates_def findAndCount_def sk)
qed



section \<open>A limit of zero\<close>

text \<open>
  Claim C10. The query schema checks that \<open>limit\<close> is numeric and nothing
  else: every numeric string is accepted, among them "0" and "-5", which the
  handler reads as 0 and -5. For a validated list request whose limit is 0,
  handled while the store answers and with at least one row that is not
  soft-deleted, the response is a success whose \<open>pages\<close> is the result of
  dividing the positive count by zero: \<open>Infinity\<close>, which is not a finite
  number.
\<close>

theorem zero_limit:
  assumes hdr: "parse_header (x_api_fields r) = Some f" "parse_header (x_api_sort r) = Some so"
    and valid: "fetchAllOsTemplates_validation (q r) f so = None"
    and store: "\<not> fails e FindAndCount"
    and zero: "limit_of (q r) = Num 0"
    and some: "filter live (osTemplates d) \<noteq> []"
  shows "(\<exists>rows. fetchAllOsTemplates v e r d =
              Sent (send [(''status'', PStatus SUCCESS), (''ostemplates'', POsTemplates rows),
                          (''count'', PNumber (Num (int (length (filter live (osTemplates d)))))),
                          (''pages'', PNumber PosInfinity)]))
         \<and> \<not> is_finite PosInfinity
         \<and> (\<forall>s. numeric_string s \<longrightarrow>
               fetchAllOsTemplates_validation [(''limit'', JStr s)] (JObj []) so = None)
         \<and> numeric_string ''0'' \<and> limit_of [(''limit'', JStr ''0'')] = Num 0
         \<and> numeric_string ''-5'' \<and> limit_of [(''limit'', JStr ''-5'')] = Num (- 5)"
proof -
  from list_validated_page[OF valid] obtain p where p: "page_of (q r) = Num p" by blast
  have run: "\<exists>rows. fetchAllOsTemplates v e r d =
              Sent (send [(''status'', PStatus SUCCESS), (''ostemplates'', POsTemplates rows),
                          (''count'', PNumber (Num (int (length (filter live (osTemplates d)))))),
                          (''pages'', PNumber PosInfinity)])"
    using fetchAllOsTemplates_run[OF hdr valid store p zero, of v d] some by fastforce
  have acc: "\<forall>s. numeric_string s \<longrightarrow>
               fetchAllOsTemplates_validation [(''limit'', JStr s)] (JObj []) so = None"
    by (simp add: fetchAllOsTemplates_validation_def list_query_schema_def joi_member_def
        joi_object_def unknown_key_def opt_def field_option_def osTemplate_attributes_def)
  have ex: "numeric_string ''0''" "limit_of [(''limit'', JStr ''0'')] = Num 0"
    "numeric_string ''-5''" "limit_of [(''limit'', JStr ''-5'')] = Num (- 5)"
    by (simp_all add: limit_of_def parseInt10_def split_sign_def is_space_def is_digit_def
        digits_val_def digit_val_def numeric_string_def)
  show ?thesis using run acc ex by (simp add: is_finite_def)
qed

text \<open>The theorem at the installation, for the query \<open>limit=0\<close>.\<close>

theorem zero_limit_witness:
  "parse_header (x_api_fields no_limit) = Some (JObj [])
   \<and> parse_header (x_api_sort no_limit) = Some (JObj [])
   \<and> fetchAllOsTemplates_validation (q no_limit) (JObj []) (JObj []) = None
   \<and> \<not> fails quiet FindAndCount
   \<and> limit_of (q no_limit) = Num 0
   \<and> filter live (osTemplates site) \<noteq> []
   \<and> (\<exists>rows. fetchAllOsTemplates plain quiet no_limit site =
        Sent (send [(''status'', PStatus SUCCESS), (''ostemplates'', POsTemplates rows),
                    (''count'', PNumber (Num 1)), (''pages'', PNumber PosInfinity)]))"
proof -
  have h: "parse_header (x_api_fields no_limit) = Some (JObj [])"
    "parse_header (x_api_sort no_limit) = Some (JObj [])"
    by (simp_all add: no_limit_def parse_header_def)
  have v: "fetchAllOsTemplates_validation (q no_limit) (JObj []) (JObj []) = None"
    by (simp add: no_limit_def fetchAllOsTemplates_validation_def list_query_schema_def
        joi_simps parse_simps)
  have s: "\<not> fails quiet FindAndCount"
    by (simp add: quiet_def)
  have z: "limit_of (q no_limit) = Num 0"
    by (simp add: no_limit_def limit_of_def parse_simps)
  have m: "filter live (osTemplates site) = [ubuntu]"
    by (simp add: site_def ubuntu_def live_def)
  have n: "filter live (osTemplates site) \<noteq> []"
    by (simp add: m)
  have "\<exists>rows. fetchAllOsTemplates plain quiet no_limit site =
        Sent (send [(''status'', PStatus SUCCESS), (''ostemplates'', POsTemplates rows),
                    (''count'', PNumber (Num 1)), (''pages'', PNumber PosInfinity)])"
    using zero_limit[OF h v s z n, of plain] by (simp add: m)
  then show ?thesis using h v s z n by simp
qed

section \<open>Soft delete\<close>





section \<open>The frame of a partial update\<close>























end
